theory Spec2Isabelle
  imports Main
begin

section \<open>JavaScript values, objects and calls\<close>

text \<open>
  The two source files define curried arrow functions over a JavaScript object
  \<^verbatim>\<open>paths\<close>. The dispatcher reads \<^verbatim>\<open>paths[choice]\<close> when it is invoked,
  so the table is an object in a heap that handlers and callers share with the
  dispatcher. Functions are first-class values; a function value is an
  identifier, and the behaviour of every identifier is given by a function
  environment that is a parameter of the model.
\<close>

type_synonym addr = nat
type_synonym fid = nat

text \<open>
  \<open>Num\<close> stands for the integer-valued numbers of magnitude below \<open>10^21\<close>,
  the range in which the language renders a number as its plain decimal
  digits. Fractions, \<^verbatim>\<open>NaN\<close>, the infinities and negative zero are left out;
  the dispatcher does no arithmetic on numbers.
\<close>

datatype jsval =
    Undefined
  | Null
  | Bool bool
  | Num int
  | Str string
  | Sym nat
  | Fun fid
  | Ref addr

text \<open>Property keys are strings and symbols.\<close>

datatype pkey = PStr string | PSym nat

text \<open>The type parameter \<^verbatim>\<open>T extends string | number | symbol\<close>.\<close>

datatype choice = CStr string | CNum int | CSym nat

text \<open>
  A completion is either a returned value or a raised error. \<open>TypeError\<close> is
  what the language raises when a value that is not a function is called;
  \<open>Thrown v\<close> is a \<^verbatim>\<open>throw v\<close> of a handler.
\<close>

datatype error = TypeError | Thrown jsval

text \<open>
  An object has its own properties and the properties it inherits: \<open>inherited\<close>
  is the view of its prototype chain, nearest prototype first, as one map.
\<close>

record obj =
  own :: "pkey \<rightharpoonup> jsval"
  inherited :: "pkey \<rightharpoonup> jsval"

type_synonym heap = "addr \<Rightarrow> obj"

type_synonym 'a result = "(error + 'a) \<times> heap"

text \<open>
  The behaviour of a function value: from the \<^verbatim>\<open>this\<close> value, the argument
  list and the heap to a completion and the heap it leaves.
\<close>

type_synonym fenv = "fid \<Rightarrow> jsval \<Rightarrow> jsval list \<Rightarrow> heap \<Rightarrow> jsval result"

subsection \<open>Property keys of choices\<close>

definition digit :: "nat \<Rightarrow> char" where
  "digit n = ''0123456789'' ! n"

fun string_of_nat :: "nat \<Rightarrow> string" where
  "string_of_nat n =
     (if n < 10 then [digit n] else string_of_nat (n div 10) @ [digit (n mod 10)])"

declare string_of_nat.simps [simp del]

definition number_to_string :: "int \<Rightarrow> string" where
  "number_to_string i =
     (if i < 0 then CHR ''-'' # string_of_nat (nat (- i)) else string_of_nat (nat i))"

text \<open>
  \<^verbatim>\<open>paths[choice]\<close> converts the choice to a property key: a number becomes
  its decimal string, so \<^verbatim>\<open>paths[1]\<close> and \<^verbatim>\<open>paths['1']\<close> read the same
  property.
\<close>

fun to_property_key :: "choice \<Rightarrow> pkey" where
  "to_property_key (CStr s) = PStr s"
| "to_property_key (CNum n) = PStr (number_to_string n)"
| "to_property_key (CSym n) = PSym n"

text \<open>The choice as the argument value a handler receives.\<close>

fun choice_value :: "choice \<Rightarrow> jsval" where
  "choice_value (CStr s) = Str s"
| "choice_value (CNum n) = Num n"
| "choice_value (CSym n) = Sym n"

subsection \<open>Reading a property, truthiness, calling\<close>

text \<open>\<^verbatim>\<open>o[k]\<close>: the own property, else the inherited one, else \<^verbatim>\<open>undefined\<close>.\<close>

definition get_property :: "heap \<Rightarrow> addr \<Rightarrow> pkey \<Rightarrow> jsval" where
  "get_property h a k =
     (case own (h a) k of
        Some v \<Rightarrow> v
      | None \<Rightarrow> (case inherited (h a) k of Some v \<Rightarrow> v | None \<Rightarrow> Undefined))"

text \<open>The left operand of \<^verbatim>\<open>&&\<close> decides by truthiness.\<close>

fun truthy :: "jsval \<Rightarrow> bool" where
  "truthy Undefined = False"
| "truthy Null = False"
| "truthy (Bool b) = b"
| "truthy (Num n) = (n \<noteq> 0)"
| "truthy (Str s) = (s \<noteq> [])"
| "truthy (Sym n) = True"
| "truthy (Fun f) = True"
| "truthy (Ref a) = True"

text \<open>
  \<^verbatim>\<open>v(...args)\<close> with a given \<^verbatim>\<open>this\<close>: a function value runs its
  behaviour; every other value raises \<open>TypeError\<close> and leaves the heap as it is.
\<close>

fun call :: "fenv \<Rightarrow> jsval \<Rightarrow> jsval \<Rightarrow> jsval list \<Rightarrow> heap \<Rightarrow> jsval result" where
  "call fenv (Fun f) this args h = fenv f this args h"
| "call fenv v this args h = (Inl TypeError, h)"

section \<open>The dispatchers\<close>

text \<open>
  A dispatcher is the inner arrow function together with the variable
  \<^verbatim>\<open>paths\<close> it closes over: a reference to the table. \<open>Exhaustive\<close> and
  \<open>Partial\<close> are the closures of the file whose handlers take
  \<^verbatim>\<open>(choice, ...rest)\<close>; \<open>Exhaustive0\<close> and \<open>Partial0\<close> are the closures of
  \<^verbatim>\<open>src/index.ts\<close>, whose handlers take no argument.
\<close>

datatype dispatcher =
    Exhaustive addr
  | Partial addr
  | Exhaustive0 addr
  | Partial0 addr

subsection \<open>The form with arguments\<close>

text \<open>
  \<^verbatim>\<open>
  export const basedOn =
    <T extends string | number | symbol, P extends any[] = void[]>(
      paths: Record<T, (...args: [T, ...P]) => void>
    ) =>
    (choice: T, ...rest: P) => {
      return paths[choice](choice, ...rest);
    };

  export const switchOn = basedOn;
  export const basedOnPartial =
    <T extends string | number | symbol, P extends any[] = void[]>(
      paths: Partial<Record<T, (...args: [T, ...P]) => void>>
    ) =>
    (choice: T, ...rest: P) => {
      return paths[choice] && paths[choice](choice, ...rest);
    };
  export const switchOnPartial = basedOnPartial;
  \<close>
  The outer function only builds the closure. It is written as a computation
  with a completion so that a failure of the construction would be a value.
\<close>

definition basedOn :: "addr \<Rightarrow> heap \<Rightarrow> dispatcher result" where
  "basedOn paths h = (Inr (Exhaustive paths), h)"

definition switchOn :: "addr \<Rightarrow> heap \<Rightarrow> dispatcher result" where
  "switchOn = basedOn"

definition basedOnPartial :: "addr \<Rightarrow> heap \<Rightarrow> dispatcher result" where
  "basedOnPartial paths h = (Inr (Partial paths), h)"

definition switchOnPartial :: "addr \<Rightarrow> heap \<Rightarrow> dispatcher result" where
  "switchOnPartial = basedOnPartial"

subsection \<open>The form of \<^verbatim>\<open>src/index.ts\<close>\<close>

text \<open>
  \<^verbatim>\<open>
  export const basedOn =
    <T extends string | number | symbol>(paths: Record<T, () => void>) =>
    (choice: T) => {
      return paths[choice]();
    };

  export const switchOn = basedOn;
  export const basedOnPartial =
    <T extends string | number | symbol>(paths: Partial<Record<T, () => void>>) =>
    (choice: T) => {
      return paths[choice] && paths[choice]();
    };
  export const switchOnPartial = basedOnPartial;
  \<close>
\<close>

definition basedOn0 :: "addr \<Rightarrow> heap \<Rightarrow> dispatcher result" where
  "basedOn0 paths h = (Inr (Exhaustive0 paths), h)"

definition switchOn0 :: "addr \<Rightarrow> heap \<Rightarrow> dispatcher result" where
  "switchOn0 = basedOn0"

definition basedOnPartial0 :: "addr \<Rightarrow> heap \<Rightarrow> dispatcher result" where
  "basedOnPartial0 paths h = (Inr (Partial0 paths), h)"

definition switchOnPartial0 :: "addr \<Rightarrow> heap \<Rightarrow> dispatcher result" where
  "switchOnPartial0 = basedOnPartial0"

subsection \<open>Invoking a dispatcher\<close>

text \<open>
  The bodies of the four inner arrow functions. \<^verbatim>\<open>paths[choice](...)\<close> is a
  method call, so the handler runs with the table as \<^verbatim>\<open>this\<close>. The partial
  forms read the property twice, as the source does. A dispatcher of
  \<^verbatim>\<open>src/index.ts\<close> declares one parameter and passes nothing on: arguments
  given to it beyond the choice are dropped.
\<close>

fun invoke :: "fenv \<Rightarrow> dispatcher \<Rightarrow> choice \<Rightarrow> jsval list \<Rightarrow> heap \<Rightarrow> jsval result" where
  "invoke fenv (Exhaustive paths) choice rest h =
     call fenv (get_property h paths (to_property_key choice)) (Ref paths)
       (choice_value choice # rest) h"
| "invoke fenv (Partial paths) choice rest h =
     (if truthy (get_property h paths (to_property_key choice))
      then call fenv (get_property h paths (to_property_key choice)) (Ref paths)
             (choice_value choice # rest) h
      else (Inr (get_property h paths (to_property_key choice)), h))"
| "invoke fenv (Exhaustive0 paths) choice rest h =
     call fenv (get_property h paths (to_property_key choice)) (Ref paths) [] h"
| "invoke fenv (Partial0 paths) choice rest h =
     (if truthy (get_property h paths (to_property_key choice))
      then call fenv (get_property h paths (to_property_key choice)) (Ref paths) [] h
      else (Inr (get_property h paths (to_property_key choice)), h))"

text \<open>
  \<^verbatim>\<open>mk(paths)(choice, ...rest)\<close>: build the dispatcher, then invoke it.
\<close>

definition run ::
  "fenv \<Rightarrow> (addr \<Rightarrow> heap \<Rightarrow> dispatcher result) \<Rightarrow> addr \<Rightarrow> choice \<Rightarrow> jsval list \<Rightarrow> heap
     \<Rightarrow> jsval result" where
  "run fenv mk paths choice rest h =
     (case mk paths h of
        (Inl e, h') \<Rightarrow> (Inl e, h')
      | (Inr d, h') \<Rightarrow> invoke fenv d choice rest h')"

subsection \<open>Notions the properties are stated with\<close>

text \<open>The handler a table entry holds, if the entry is a function.\<close>

fun handler_of :: "jsval option \<Rightarrow> fid option" where
  "handler_of (Some (Fun f)) = Some f"
| "handler_of v = None"

text \<open>The handler the table has under a choice as an own property.\<close>

definition own_handler :: "heap \<Rightarrow> addr \<Rightarrow> choice \<Rightarrow> fid option" where
  "own_handler h paths c = handler_of (own (h paths) (to_property_key c))"

text \<open>A table is total on a domain when it has a handler for each of its members.\<close>

definition covers :: "heap \<Rightarrow> addr \<Rightarrow> choice set \<Rightarrow> bool" where
  "covers h paths D \<longleftrightarrow> (\<forall>c\<in>D. own_handler h paths c \<noteq> None)"

text \<open>Two invocations in a row, the second in the heap the first one leaves.\<close>

definition invoke_twice ::
  "fenv \<Rightarrow> dispatcher \<Rightarrow> choice \<Rightarrow> jsval list \<Rightarrow> heap \<Rightarrow> (error + jsval) \<times> (error + jsval)"
  where
  "invoke_twice fenv d c rest h =
     (case invoke fenv d c rest h of
        (r1, h1) \<Rightarrow> (case invoke fenv d c rest h1 of (r2, h2) \<Rightarrow> (r1, r2)))"

text \<open>Handlers without side effects: every function leaves the heap as it found it.\<close>

definition heap_preserving :: "fenv \<Rightarrow> bool" where
  "heap_preserving fenv \<longleftrightarrow> (\<forall>f this args h. snd (fenv f this args h) = h)"

text \<open>
  A function that does not look at its arguments, as the handler type
  \<^verbatim>\<open>() => void\<close> of \<^verbatim>\<open>src/index.ts\<close> asks.
\<close>

definition nullary :: "fenv \<Rightarrow> fid \<Rightarrow> bool" where
  "nullary fenv f \<longleftrightarrow> (\<forall>this args h. fenv f this args h = fenv f this [] h)"

section \<open>Example tables\<close>

text \<open>
  The handlers used in the examples below. Identifier \<open>0\<close> is the built-in
  \<^verbatim>\<open>Object.prototype.toString\<close>, which every object literal inherits and
  which answers \<^verbatim>\<open>'[object Object]'\<close> on an ordinary object. Identifiers
  \<open>1\<close> to \<open>3\<close> are \<^verbatim>\<open>() => 'one'\<close>, \<^verbatim>\<open>() => 'two'\<close> and
  \<^verbatim>\<open>() => 'three'\<close>; \<open>4\<close> is \<^verbatim>\<open>(choice) => choice\<close>; \<open>5\<close> is
  \<^verbatim>\<open>(choice, a, b) => b\<close>; \<open>6\<close> is \<^verbatim>\<open>() => { throw 'boom' }\<close>; \<open>7\<close> is
  \<^verbatim>\<open>() => { const r = box.n; box.n = 1; return r }\<close> for the object \<^verbatim>\<open>box\<close>
  at address \<open>1\<close>; \<open>8\<close> is \<^verbatim>\<open>function () { return arguments.length }\<close>, which
  declares no parameter and so has the type \<^verbatim>\<open>() => void\<close> asks for.
\<close>

definition nth_arg :: "jsval list \<Rightarrow> nat \<Rightarrow> jsval" where
  "nth_arg args i = (if i < length args then args ! i else Undefined)"

definition handlers :: fenv where
  "handlers f this args h =
     (if f = 0 then (Inr (Str ''[object Object]''), h)
      else if f = 1 then (Inr (Str ''one''), h)
      else if f = 2 then (Inr (Str ''two''), h)
      else if f = 3 then (Inr (Str ''three''), h)
      else if f = 4 then (Inr (nth_arg args 0), h)
      else if f = 5 then (Inr (nth_arg args 2), h)
      else if f = 6 then (Inl (Thrown (Str ''boom'')), h)
      else if f = 7 then
        (Inr (get_property h 1 (PStr ''n'')),
         h(1 := (h 1)\<lparr>own := (own (h 1))(PStr ''n'' \<mapsto> Num 1)\<rparr>))
      else if f = 8 then (Inr (Num (int (length args))), h)
      else (Inr Undefined, h))"

text \<open>
  The part of \<^verbatim>\<open>Object.prototype\<close> that the examples read. The real object
  has more (\<^verbatim>\<open>valueOf\<close>, \<^verbatim>\<open>hasOwnProperty\<close>, \<^verbatim>\<open>constructor\<close> and
  others); no statement below reads those names on an example table.
\<close>

definition object_prototype :: "pkey \<rightharpoonup> jsval" where
  "object_prototype = [PStr ''toString'' \<mapsto> Fun 0]"

text \<open>An object literal with the given own properties.\<close>

definition literal :: "(pkey \<times> jsval) list \<Rightarrow> obj" where
  "literal ps = \<lparr>own = map_of ps, inherited = object_prototype\<rparr>"

text \<open>
  A heap with the table \<^verbatim>\<open>{1: () => 'one', 2: () => 'two', 3: () => 'three'}\<close>
  at address \<open>0\<close> and empty object literals everywhere else.
\<close>

definition digits_heap :: heap where
  "digits_heap =
     (\<lambda>a. literal [])
       (0 := literal [(PStr ''1'', Fun 1), (PStr ''2'', Fun 2), (PStr ''3'', Fun 3)])"

text \<open>
  A heap with the table
  \<^verbatim>\<open>{echo: (choice) => choice, third: (choice, a, b) => b, fail: () => { throw 'boom' },
     next: () => { const r = box.n; box.n = 1; return r }, off: undefined}\<close>
  at address \<open>0\<close>.
\<close>

definition tools_heap :: heap where
  "tools_heap =
     (\<lambda>a. literal [])
       (0 := literal [(PStr ''echo'', Fun 4), (PStr ''third'', Fun 5), (PStr ''fail'', Fun 6),
                      (PStr ''next'', Fun 7), (PStr ''off'', Undefined)])"

text \<open>
  A heap with the table \<^verbatim>\<open>{count: function () { return arguments.length }}\<close>
  at address \<open>0\<close>.
\<close>

definition count_heap :: heap where
  "count_heap = (\<lambda>a. literal []) (0 := literal [(PStr ''count'', Fun 8)])"

section \<open>Lookup and call\<close>

lemma own_handler_entry:
  "own_handler h paths c = Some f \<Longrightarrow> own (h paths) (to_property_key c) = Some (Fun f)"
  unfolding own_handler_def by (erule handler_of.elims) simp_all

lemma own_handler_get:
  assumes "own_handler h paths c = Some f"
  shows "get_property h paths (to_property_key c) = Fun f"
  using own_handler_entry [OF assms] by (simp add: get_property_def)

lemma get_property_absent:
  assumes "own (h a) k = None" and "inherited (h a) k = None"
  shows "get_property h a k = Undefined"
  using assms by (simp add: get_property_def)

lemma call_not_function:
  assumes "\<And>f. v \<noteq> Fun f"
  shows "call fenv v this args h = (Inl TypeError, h)"
  using assms by (cases v) auto

lemma call_preserves_heap:
  assumes "heap_preserving fenv"
  shows "snd (call fenv v this args h) = h"
  using assms by (cases v) (simp_all add: heap_preserving_def)

lemma invoke_preserves_heap:
  assumes "heap_preserving fenv"
  shows "snd (invoke fenv d c rest h) = h"
  by (cases d) (simp_all add: call_preserves_heap [OF assms])

section \<open>Behaviour on absent choices\<close>

text \<open>
  A choice that the table neither has nor inherits: the exhaustive dispatcher
  calls \<^verbatim>\<open>undefined\<close> and raises \<open>TypeError\<close>, the partial one returns
  \<^verbatim>\<open>undefined\<close>. Neither touches the heap.
\<close>

lemma exhaustive_absent:
  assumes "own (h paths) (to_property_key c) = None"
    and "inherited (h paths) (to_property_key c) = None"
  shows "invoke fenv (Exhaustive paths) c rest h = (Inl TypeError, h)"
  using assms by (simp add: get_property_def)

lemma partial_absent:
  assumes "own (h paths) (to_property_key c) = None"
    and "inherited (h paths) (to_property_key c) = None"
  shows "invoke fenv (Partial paths) c rest h = (Inr Undefined, h)"
  using assms by (simp add: get_property_def)

text \<open>
  The partial dispatcher returns the looked-up value itself whenever it is
  falsy, and calls it whenever it is truthy, function or not.
\<close>

lemma partial_falsy:
  assumes "\<not> truthy (get_property h paths (to_property_key c))"
  shows "invoke fenv (Partial paths) c rest h =
           (Inr (get_property h paths (to_property_key c)), h)"
  using assms by simp

lemma partial_truthy:
  assumes "truthy (get_property h paths (to_property_key c))"
  shows "invoke fenv (Partial paths) c rest h = invoke fenv (Exhaustive paths) c rest h"
  using assms by simp

section \<open>The form of \<^verbatim>\<open>src/index.ts\<close> against the form with arguments\<close>

text \<open>
  \<^verbatim>\<open>src/index.ts\<close> calls the handler with no argument at all. On the tables
  its type admits, whose handlers take no parameter, it returns what the form
  with arguments returns.
\<close>

lemma index_form_exhaustive:
  assumes "\<And>f. get_property h paths (to_property_key c) = Fun f \<Longrightarrow> nullary fenv f"
  shows "invoke fenv (Exhaustive0 paths) c rest h = invoke fenv (Exhaustive paths) c rest h"
proof (cases "get_property h paths (to_property_key c)")
  case (Fun f)
  with assms have "nullary fenv f" by simp
  then have "fenv f (Ref paths) (choice_value c # rest) h = fenv f (Ref paths) [] h"
    unfolding nullary_def by blast
  with Fun show ?thesis by simp
qed simp_all

lemma index_form_partial:
  assumes "\<And>f. get_property h paths (to_property_key c) = Fun f \<Longrightarrow> nullary fenv f"
  shows "invoke fenv (Partial0 paths) c rest h = invoke fenv (Partial paths) c rest h"
  using index_form_exhaustive [where rest = rest, OF assms] by simp

text \<open>A handler that reads its first argument tells the two forms apart.\<close>

lemma index_form_drops_choice:
  "invoke handlers (Exhaustive0 0) (CStr ''echo'') [] tools_heap = (Inr Undefined, tools_heap)"
  "invoke handlers (Exhaustive 0) (CStr ''echo'') [] tools_heap = (Inr (Str ''echo''), tools_heap)"
  by (simp_all add: get_property_def tools_heap_def literal_def handlers_def nth_arg_def)

section \<open>The examples of the documentation\<close>

text \<open>
  \<^verbatim>\<open>convertDigitToName(1)\<close> returns \<^verbatim>\<open>'one'\<close>, \<^verbatim>\<open>convertDigitToName(10)\<close>
  raises, and the partial \<^verbatim>\<open>convertDigitToNameNoError(100)\<close> returns
  \<^verbatim>\<open>undefined\<close>.
\<close>

lemma convertDigitToName_1:
  "run handlers switchOn 0 (CNum 1) [] digits_heap = (Inr (Str ''one''), digits_heap)"
  by (simp add: run_def switchOn_def basedOn_def get_property_def digits_heap_def literal_def
      handlers_def number_to_string_def string_of_nat.simps digit_def)

lemma convertDigitToName_10:
  "run handlers switchOn 0 (CNum 10) [] digits_heap = (Inl TypeError, digits_heap)"
  by (simp add: run_def switchOn_def basedOn_def get_property_def digits_heap_def literal_def
      object_prototype_def number_to_string_def string_of_nat.simps digit_def)

lemma convertDigitToNameNoError_100:
  "run handlers switchOnPartial 0 (CNum 100) [] digits_heap = (Inr Undefined, digits_heap)"
  by (simp add: run_def switchOnPartial_def basedOnPartial_def get_property_def digits_heap_def
      literal_def object_prototype_def number_to_string_def string_of_nat.simps digit_def)

section \<open>Properties of the dispatchers\<close>

text \<open>
  C1, as stated, fails on \<^verbatim>\<open>src/index.ts\<close>: its dispatcher returns the result
  of \<^verbatim>\<open>M[c]()\<close>, not of \<^verbatim>\<open>M[c](c, ...extra)\<close>. The table
  \<^verbatim>\<open>{count: function () { return arguments.length }}\<close> is total on the domain
  \<^verbatim>\<open>'count'\<close>; the dispatcher that \<open>basedOn\<close> of \<^verbatim>\<open>src/index.ts\<close> builds
  from it returns \<^verbatim>\<open>0\<close> on \<^verbatim>\<open>'count'\<close>, where \<^verbatim>\<open>M['count']('count')\<close>
  returns \<^verbatim>\<open>1\<close>.
\<close>

theorem basedOn0_drops_choice:
  "covers count_heap 0 {CStr ''count''} \<and>
   own_handler count_heap 0 (CStr ''count'') = Some 8 \<and>
   run handlers basedOn0 0 (CStr ''count'') [] count_heap = (Inr (Num 0), count_heap) \<and>
   handlers 8 (Ref 0) (choice_value (CStr ''count'') # []) count_heap =
     (Inr (Num 1), count_heap)"
  by (simp add: covers_def own_handler_def run_def basedOn0_def get_property_def
      count_heap_def literal_def handlers_def)

text \<open>
  C1, amended. For a table that has a handler for every member of a domain
  \<open>D\<close>, a choice \<open>c\<close> in \<open>D\<close> and any extra arguments: the dispatcher that
  \<open>basedOn\<close> of the form with rest arguments builds from the table returns
  exactly what the table's handler for \<open>c\<close> returns when it is called on the
  table with \<open>c\<close> followed by the extra arguments, the same completion and the
  same heap; the dispatcher that \<open>basedOn\<close> of \<^verbatim>\<open>src/index.ts\<close> builds returns
  exactly what that handler returns when it is called on the table with no
  argument, which is the same thing whenever the handler does not look at its
  arguments.
\<close>

theorem basedOn_total:
  assumes "basedOn paths h0 = (Inr d, h1)"
    and "basedOn0 paths h0 = (Inr d0, h2)"
    and "covers h paths D"
    and "c \<in> D"
  shows "\<exists>f. own_handler h paths c = Some f \<and>
             invoke fenv d c extra h = fenv f (Ref paths) (choice_value c # extra) h \<and>
             invoke fenv d0 c extra h = fenv f (Ref paths) [] h \<and>
             (nullary fenv f \<longrightarrow>
                invoke fenv d0 c extra h = fenv f (Ref paths) (choice_value c # extra) h)"
proof -
  from assms(3,4) obtain f where f: "own_handler h paths c = Some f"
    unfolding covers_def by blast
  from assms(1) have d: "d = Exhaustive paths"
    by (simp add: basedOn_def)
  from assms(2) have d0: "d0 = Exhaustive0 paths"
    by (simp add: basedOn0_def)
  have g: "invoke fenv d c extra h = fenv f (Ref paths) (choice_value c # extra) h"
    unfolding d by (simp add: own_handler_get [OF f])
  have i: "invoke fenv d0 c extra h = fenv f (Ref paths) [] h"
    unfolding d0 by (simp add: own_handler_get [OF f])
  have n: "nullary fenv f \<longrightarrow>
             invoke fenv d0 c extra h = fenv f (Ref paths) (choice_value c # extra) h"
    unfolding i nullary_def by metis
  from f g i n show ?thesis by blast
qed

theorem basedOn_total_witness:
  "basedOn 0 digits_heap = (Inr (Exhaustive 0), digits_heap) \<and>
   basedOn0 0 digits_heap = (Inr (Exhaustive0 0), digits_heap) \<and>
   covers digits_heap 0 {CNum 1, CNum 2, CNum 3} \<and>
   nullary handlers 2 \<and>
   (\<exists>f. own_handler digits_heap 0 (CNum 2) = Some f \<and>
        invoke handlers (Exhaustive 0) (CNum 2) [] digits_heap =
          handlers f (Ref 0) [Num 2] digits_heap \<and>
        invoke handlers (Exhaustive0 0) (CNum 2) [] digits_heap =
          handlers f (Ref 0) [] digits_heap \<and>
        (nullary handlers f \<longrightarrow>
           invoke handlers (Exhaustive0 0) (CNum 2) [] digits_heap =
             handlers f (Ref 0) [Num 2] digits_heap)) \<and>
   invoke handlers (Exhaustive 0) (CNum 2) [] digits_heap = (Inr (Str ''two''), digits_heap) \<and>
   invoke handlers (Exhaustive0 0) (CNum 2) [] digits_heap = (Inr (Str ''two''), digits_heap)"
proof -
  have b: "basedOn 0 digits_heap = (Inr (Exhaustive 0), digits_heap)"
    by (simp add: basedOn_def)
  have b0: "basedOn0 0 digits_heap = (Inr (Exhaustive0 0), digits_heap)"
    by (simp add: basedOn0_def)
  have c: "covers digits_heap 0 {CNum 1, CNum 2, CNum 3}"
    by (simp add: covers_def own_handler_def digits_heap_def literal_def
        number_to_string_def string_of_nat.simps digit_def)
  have m: "CNum 2 \<in> {CNum 1, CNum 2, CNum 3}" by simp
  have n: "nullary handlers 2"
    by (simp add: nullary_def handlers_def)
  have r: "invoke handlers (Exhaustive 0) (CNum 2) [] digits_heap =
             (Inr (Str ''two''), digits_heap)"
    by (simp add: get_property_def digits_heap_def literal_def handlers_def
        number_to_string_def string_of_nat.simps digit_def)
  have r0: "invoke handlers (Exhaustive0 0) (CNum 2) [] digits_heap =
              (Inr (Str ''two''), digits_heap)"
    by (simp add: get_property_def digits_heap_def literal_def handlers_def
        number_to_string_def string_of_nat.simps digit_def)
  from basedOn_total [OF b b0 c m, of handlers "[]"] b b0 c n r r0 show ?thesis
    by (simp del: invoke.simps)
qed

text \<open>
  C2, as stated, fails on \<^verbatim>\<open>src/index.ts\<close>: in both of its modes the matched
  handler is called with no argument. For the table
  \<^verbatim>\<open>{count: function () { return arguments.length }}\<close> the partial dispatcher
  of \<^verbatim>\<open>src/index.ts\<close> returns \<^verbatim>\<open>0\<close> on \<^verbatim>\<open>'count'\<close>: the handler did not
  receive the choice, with which it returns \<^verbatim>\<open>1\<close>.
\<close>

theorem basedOnPartial0_passes_no_argument:
  "own_handler count_heap 0 (CStr ''count'') = Some 8 \<and>
   run handlers basedOnPartial0 0 (CStr ''count'') [] count_heap = (Inr (Num 0), count_heap) \<and>
   handlers 8 (Ref 0) (choice_value (CStr ''count'') # []) count_heap =
     (Inr (Num 1), count_heap)"
  by (simp add: own_handler_def run_def basedOnPartial0_def get_property_def
      count_heap_def literal_def handlers_def)

text \<open>
  C2, amended. When the table has a handler for the choice: in both modes of
  the form with rest arguments that handler is called with the choice value
  first and the caller's extra arguments after it, unchanged and in their
  order; in both modes of \<^verbatim>\<open>src/index.ts\<close> it is called with no argument, and
  arguments given to the dispatcher beyond the choice are dropped. In all four
  cases the dispatcher returns the handler's completion and heap.
\<close>

theorem handler_receives_choice_and_rest:
  assumes "own_handler h paths c = Some f"
  shows "run fenv basedOn paths c extra h = fenv f (Ref paths) (choice_value c # extra) h \<and>
         run fenv basedOnPartial paths c extra h =
           fenv f (Ref paths) (choice_value c # extra) h \<and>
         run fenv basedOn0 paths c extra h = fenv f (Ref paths) [] h \<and>
         run fenv basedOnPartial0 paths c extra h = fenv f (Ref paths) [] h"
  by (simp add: run_def basedOn_def basedOnPartial_def basedOn0_def basedOnPartial0_def
      own_handler_get [OF assms])

theorem handler_receives_choice_and_rest_witness:
  "own_handler tools_heap 0 (CStr ''third'') = Some 5 \<and>
   run handlers basedOn 0 (CStr ''third'') [Num 7, Num 8] tools_heap =
     handlers 5 (Ref 0) [Str ''third'', Num 7, Num 8] tools_heap \<and>
   run handlers basedOnPartial 0 (CStr ''third'') [Num 7, Num 8] tools_heap =
     handlers 5 (Ref 0) [Str ''third'', Num 7, Num 8] tools_heap \<and>
   run handlers basedOn0 0 (CStr ''third'') [Num 7, Num 8] tools_heap =
     handlers 5 (Ref 0) [] tools_heap \<and>
   run handlers basedOnPartial0 0 (CStr ''third'') [Num 7, Num 8] tools_heap =
     handlers 5 (Ref 0) [] tools_heap \<and>
   handlers 5 (Ref 0) [Str ''third'', Num 7, Num 8] tools_heap = (Inr (Num 8), tools_heap) \<and>
   handlers 5 (Ref 0) [] tools_heap = (Inr Undefined, tools_heap)"
proof -
  have o: "own_handler tools_heap 0 (CStr ''third'') = Some 5"
    by (simp add: own_handler_def tools_heap_def literal_def)
  have v: "handlers 5 (Ref 0) [Str ''third'', Num 7, Num 8] tools_heap =
             (Inr (Num 8), tools_heap)"
    by (simp add: handlers_def nth_arg_def)
  have v0: "handlers 5 (Ref 0) [] tools_heap = (Inr Undefined, tools_heap)"
    by (simp add: handlers_def nth_arg_def)
  from handler_receives_choice_and_rest [OF o, of handlers "[Num 7, Num 8]"] o v v0
  show ?thesis by simp
qed

text \<open>
  C3. The claim: for a choice that is not a key of the table, the partial
  dispatcher returns \<^verbatim>\<open>undefined\<close> and does not raise. The code at
  \<^verbatim>\<open>basedOnPartial<string>({})('toString')\<close>: the empty table has no key, the
  lookup \<^verbatim>\<open>paths[choice]\<close> finds the inherited \<^verbatim>\<open>Object.prototype.toString\<close>,
  which is truthy, and the dispatcher calls it and returns its string.
\<close>

theorem basedOnPartial_inherited_name:
  "own (digits_heap 1) (to_property_key (CStr ''toString'')) = None \<and>
   run handlers basedOnPartial 1 (CStr ''toString'') [] digits_heap =
     (Inr (Str ''[object Object]''), digits_heap)"
  by (simp add: run_def basedOnPartial_def get_property_def digits_heap_def literal_def
      object_prototype_def handlers_def)

text \<open>
  C4. The claim: for a choice that is not present in the table, the exhaustive
  dispatcher raises. The code at \<^verbatim>\<open>basedOn<string>({})('toString')\<close>: the
  lookup finds the inherited \<^verbatim>\<open>Object.prototype.toString\<close>, the call
  succeeds and nothing is raised.
\<close>

theorem basedOn_inherited_name:
  "own (digits_heap 1) (to_property_key (CStr ''toString'')) = None \<and>
   run handlers basedOn 1 (CStr ''toString'') [] digits_heap =
     (Inr (Str ''[object Object]''), digits_heap)"
  by (simp add: run_def basedOn_def get_property_def digits_heap_def literal_def
      object_prototype_def handlers_def)

text \<open>
  C5. When the table has a handler for the choice, the partial dispatcher built
  from it returns exactly what that handler returns on the choice followed by
  the extra arguments, and so does the exhaustive dispatcher built from the
  same table: the two agree.
\<close>

theorem basedOnPartial_present:
  assumes "basedOnPartial paths h0 = (Inr dp, h1)"
    and "basedOn paths h0 = (Inr de, h2)"
    and "own_handler h paths c = Some f"
  shows "invoke fenv dp c extra h = fenv f (Ref paths) (choice_value c # extra) h \<and>
         invoke fenv dp c extra h = invoke fenv de c extra h"
proof -
  from assms(1) have dp: "dp = Partial paths"
    by (simp add: basedOnPartial_def)
  from assms(2) have de: "de = Exhaustive paths"
    by (simp add: basedOn_def)
  show ?thesis
    unfolding dp de by (simp add: own_handler_get [OF assms(3)])
qed

theorem basedOnPartial_present_witness:
  "basedOnPartial 0 digits_heap = (Inr (Partial 0), digits_heap) \<and>
   basedOn 0 digits_heap = (Inr (Exhaustive 0), digits_heap) \<and>
   own_handler digits_heap 0 (CNum 3) = Some 3 \<and>
   invoke handlers (Partial 0) (CNum 3) [] digits_heap =
     handlers 3 (Ref 0) [Num 3] digits_heap \<and>
   invoke handlers (Partial 0) (CNum 3) [] digits_heap =
     invoke handlers (Exhaustive 0) (CNum 3) [] digits_heap \<and>
   handlers 3 (Ref 0) [Num 3] digits_heap = (Inr (Str ''three''), digits_heap)"
proof -
  have p: "basedOnPartial 0 digits_heap = (Inr (Partial 0), digits_heap)"
    by (simp add: basedOnPartial_def)
  have e: "basedOn 0 digits_heap = (Inr (Exhaustive 0), digits_heap)"
    by (simp add: basedOn_def)
  have o: "own_handler digits_heap 0 (CNum 3) = Some 3"
    by (simp add: own_handler_def digits_heap_def literal_def
        number_to_string_def string_of_nat.simps digit_def)
  have v: "handlers 3 (Ref 0) [Num 3] digits_heap = (Inr (Str ''three''), digits_heap)"
    by (simp add: handlers_def)
  from basedOnPartial_present [OF p e o, of handlers "[]"] p e o v
  show ?thesis by (auto simp del: invoke.simps)
qed

text \<open>
  C6. Each alias is the function it names: \<open>switchOn\<close> is \<open>basedOn\<close> and
  \<open>switchOnPartial\<close> is \<open>basedOnPartial\<close>, in both source files, so building
  and invoking through either name gives the same completion and heap for
  every table, choice and extra arguments.
\<close>

theorem aliases_interchangeable:
  "switchOn = basedOn \<and> switchOnPartial = basedOnPartial \<and>
   switchOn0 = basedOn0 \<and> switchOnPartial0 = basedOnPartial0 \<and>
   run fenv switchOn paths c rest h = run fenv basedOn paths c rest h \<and>
   run fenv switchOnPartial paths c rest h = run fenv basedOnPartial paths c rest h \<and>
   run fenv switchOn0 paths c rest h = run fenv basedOn0 paths c rest h \<and>
   run fenv switchOnPartial0 paths c rest h = run fenv basedOnPartial0 paths c rest h"
  by (simp only: switchOn_def switchOnPartial_def switchOn0_def switchOnPartial0_def)

text \<open>
  C7, as stated, fails: a dispatcher whose handler keeps state returns
  different results on two invocations with the same choice and arguments.
  With the handler \<^verbatim>\<open>() => { const r = box.n; box.n = 1; return r }\<close> under
  \<^verbatim>\<open>next\<close>, the first invocation returns \<^verbatim>\<open>undefined\<close> and the second
  returns \<^verbatim>\<open>1\<close>.
\<close>

theorem invoke_twice_stateful_handler:
  "fst (invoke_twice handlers (Exhaustive 0) (CStr ''next'') [] tools_heap) = Inr Undefined \<and>
   snd (invoke_twice handlers (Exhaustive 0) (CStr ''next'') [] tools_heap) = Inr (Num 1)"
  by (simp add: invoke_twice_def get_property_def tools_heap_def literal_def handlers_def
      object_prototype_def)

text \<open>
  C7, amended. The dispatcher has no state of its own: when the handlers leave
  the heap unchanged, an invocation of any dispatcher, exhaustive or partial,
  leaves the heap unchanged too, and invoking it twice with the same choice
  and arguments yields the same result both times.
\<close>

theorem invoke_twice_same_result:
  assumes "heap_preserving fenv"
  shows "snd (invoke fenv d c rest h) = h \<and>
         fst (invoke_twice fenv d c rest h) = snd (invoke_twice fenv d c rest h)"
proof -
  have same: "snd (invoke fenv d c rest h) = h"
    by (rule invoke_preserves_heap [OF assms])
  obtain r where r: "invoke fenv d c rest h = (r, h)"
    using same by (cases "invoke fenv d c rest h") simp
  have "invoke_twice fenv d c rest h = (r, r)"
    by (simp only: invoke_twice_def r prod.case)
  with same show ?thesis by simp
qed

theorem invoke_twice_same_result_witness:
  "heap_preserving (\<lambda>f this args h. if f = 4 then (Inr (nth_arg args 0), h) else (Inr Undefined, h)) \<and>
   snd (invoke (\<lambda>f this args h. if f = 4 then (Inr (nth_arg args 0), h) else (Inr Undefined, h))
          (Partial 0) (CStr ''echo'') [] tools_heap) = tools_heap \<and>
   fst (invoke_twice (\<lambda>f this args h. if f = 4 then (Inr (nth_arg args 0), h) else (Inr Undefined, h))
          (Partial 0) (CStr ''echo'') [] tools_heap) =
   snd (invoke_twice (\<lambda>f this args h. if f = 4 then (Inr (nth_arg args 0), h) else (Inr Undefined, h))
          (Partial 0) (CStr ''echo'') [] tools_heap) \<and>
   fst (invoke_twice (\<lambda>f this args h. if f = 4 then (Inr (nth_arg args 0), h) else (Inr Undefined, h))
          (Partial 0) (CStr ''echo'') [] tools_heap) = Inr (Str ''echo'')"
proof -
  let ?fenv = "\<lambda>f this args h. if f = (4::nat) then (Inr (nth_arg args 0), h::heap)
                 else (Inr Undefined, h)"
  have p: "heap_preserving ?fenv"
    by (simp add: heap_preserving_def)
  have v: "fst (invoke_twice ?fenv (Partial 0) (CStr ''echo'') [] tools_heap) = Inr (Str ''echo'')"
    by (simp add: invoke_twice_def get_property_def tools_heap_def literal_def nth_arg_def)
  from invoke_twice_same_result [OF p, of "Partial 0" "CStr ''echo''" "[]" tools_heap] p v
  show ?thesis by (auto simp del: invoke.simps)
qed



text \<open>
  C9. For the partial dispatchers, a table whose entry for the choice is
  present with the value \<^verbatim>\<open>undefined\<close> gives what an absent entry gives: the
  dispatcher returns \<^verbatim>\<open>undefined\<close>, whatever the functions of the program
  are, leaves the heap as it is, and raises nothing. The test is on the
  truthiness of the value read, not on the key being there, and the absence
  marker is \<^verbatim>\<open>undefined\<close>.
\<close>

theorem basedOnPartial_undefined_entry:
  assumes "own (h paths) (to_property_key c) = Some Undefined"
  shows "to_property_key c \<in> dom (own (h paths)) \<and>
         run fenv basedOnPartial paths c rest h = (Inr Undefined, h) \<and>
         run fenv basedOnPartial0 paths c rest h = (Inr Undefined, h)"
  using assms
  by (simp add: run_def basedOnPartial_def basedOnPartial0_def get_property_def dom_def)

theorem basedOnPartial_undefined_entry_witness:
  "own (tools_heap 0) (to_property_key (CStr ''off'')) = Some Undefined \<and>
   to_property_key (CStr ''off'') \<in> dom (own (tools_heap 0)) \<and>
   run handlers basedOnPartial 0 (CStr ''off'') [Num 1] tools_heap = (Inr Undefined, tools_heap) \<and>
   run handlers basedOnPartial0 0 (CStr ''off'') [Num 1] tools_heap = (Inr Undefined, tools_heap)"
proof -
  have o: "own (tools_heap 0) (to_property_key (CStr ''off'')) = Some Undefined"
    by (simp add: tools_heap_def literal_def)
  from basedOnPartial_undefined_entry
         [where h = tools_heap and fenv = handlers and rest = "[Num 1]", OF o] o
  show ?thesis by blast
qed

text \<open>
  C10. The constructors of both source files look at nothing: for every table
  reference and every heap they return a dispatcher, raise nothing and leave
  the heap as it is. A table that lacks a choice altogether is accepted by
  \<open>basedOn\<close> all the same, and the failure shows only when the dispatcher is
  invoked with that choice.
\<close>

theorem constructors_always_succeed:
  "basedOn paths h = (Inr (Exhaustive paths), h) \<and>
   basedOnPartial paths h = (Inr (Partial paths), h) \<and>
   basedOn0 paths h = (Inr (Exhaustive0 paths), h) \<and>
   basedOnPartial0 paths h = (Inr (Partial0 paths), h) \<and>
   (own (h paths) (to_property_key c) = None \<and> inherited (h paths) (to_property_key c) = None
      \<longrightarrow> invoke fenv (Exhaustive paths) c rest h = (Inl TypeError, h))"
  by (simp add: basedOn_def basedOnPartial_def basedOn0_def basedOnPartial0_def
      get_property_def)

theorem constructors_always_succeed_witness:
  "own (digits_heap 1) (to_property_key (CStr ''start'')) = None \<and>
   inherited (digits_heap 1) (to_property_key (CStr ''start'')) = None \<and>
   basedOn 1 digits_heap = (Inr (Exhaustive 1), digits_heap) \<and>
   basedOnPartial 1 digits_heap = (Inr (Partial 1), digits_heap) \<and>
   invoke handlers (Exhaustive 1) (CStr ''start'') [] digits_heap = (Inl TypeError, digits_heap)"
proof -
  have o: "own (digits_heap 1) (to_property_key (CStr ''start'')) = None"
    by (simp add: digits_heap_def literal_def)
  have i: "inherited (digits_heap 1) (to_property_key (CStr ''start'')) = None"
    by (simp add: digits_heap_def literal_def object_prototype_def)
  from constructors_always_succeed [of 1 digits_heap "CStr ''start''" handlers "[]"] o i
  show ?thesis by blast
qed

end
